theory Spec2Isabelle
  imports Complex_Main "HOL-Library.AList"
begin

section \<open>Python values\<close>

text \<open>
  A Python \<open>str\<close> is a sequence of Unicode code points: \<open>len\<close> counts code points and
  \<open>str.strip\<close> removes Unicode white space. A string is therefore modelled as the list
  of its code points; \<open>py ''abc''\<close> is the Python literal \<open>"abc"\<close>.
\<close>

type_synonym pystr = "nat list"

definition code_point :: "char \<Rightarrow> nat" where
  "code_point c = of_char c"

definition py :: "string \<Rightarrow> pystr" where
  "py s = map code_point s"

text \<open>
  \<open>str.isspace\<close> of CPython: the code points U+0009..U+000D, U+001C..U+0020, U+0085,
  U+00A0, U+1680, U+2000..U+200A, U+2028, U+2029, U+202F, U+205F and U+3000.
\<close>

definition isspace :: "nat \<Rightarrow> bool" where
  "isspace c \<longleftrightarrow>
     (9 \<le> c \<and> c \<le> 13) \<or> (28 \<le> c \<and> c \<le> 32) \<or> c = 133 \<or> c = 160 \<or> c = 5760 \<or>
     (8192 \<le> c \<and> c \<le> 8202) \<or> c = 8232 \<or> c = 8233 \<or> c = 8239 \<or> c = 8287 \<or> c = 12288"

definition strip :: "pystr \<Rightarrow> pystr" where
  "strip s = rev (dropWhile isspace (rev (dropWhile isspace s)))"

text \<open>
  A number decoded from JSON, or read by \<open>float(...)\<close>, is a Python \<open>int\<close> or \<open>float\<close>:
  an exact rational, an infinity or NaN. Python compares \<open>int\<close> and \<open>float\<close> by their exact
  values, and every ordering comparison with NaN is false. The numeric fields are of type
  float in the specification; every float can be rounded and formatted, so \<open>round\<close> and
  the formats below are total on them.
\<close>

datatype pynum = Num rat | PosInf | NegInf | NaN

fun py_lt :: "pynum \<Rightarrow> pynum \<Rightarrow> bool" where
  "py_lt NaN _ = False"
| "py_lt _ NaN = False"
| "py_lt (Num a) (Num b) = (a < b)"
| "py_lt (Num a) PosInf = True"
| "py_lt (Num a) NegInf = False"
| "py_lt PosInf _ = False"
| "py_lt NegInf NegInf = False"
| "py_lt NegInf _ = True"

fun py_le :: "pynum \<Rightarrow> pynum \<Rightarrow> bool" where
  "py_le NaN _ = False"
| "py_le _ NaN = False"
| "py_le (Num a) (Num b) = (a \<le> b)"
| "py_le (Num a) PosInf = True"
| "py_le (Num a) NegInf = False"
| "py_le PosInf PosInf = True"
| "py_le PosInf _ = False"
| "py_le NegInf _ = True"

definition py_gt :: "pynum \<Rightarrow> pynum \<Rightarrow> bool" where
  "py_gt a b = py_lt b a"

definition py_ge :: "pynum \<Rightarrow> pynum \<Rightarrow> bool" where
  "py_ge a b = py_le b a"

text \<open>
  An f-string is kept as the sequence of its parts, in order: the literal text and the
  formatted values. \<open>f"High Risk Score ({risk_score})"\<close> is
  \<open>[Lit ''High Risk Score ('', NumV risk_score, Lit '')'']\<close>; a plain string literal is a
  single \<open>Lit\<close>. \<open>Num2f x\<close> is the value \<open>x\<close> under the format \<open>:.2f\<close>.
\<close>

datatype piece = Lit string | StrV pystr | IntV int | NumV pynum | Num2f pynum

type_synonym fstr = "piece list"


section \<open>validators.py\<close>

text \<open>
  The five patterns of \<open>validate_wallet_address\<close> all have the shape
  \<open>^ c1 ... ck [class]{lo,hi} $\<close>: \<open>k\<close> single-character classes, then between \<open>lo\<close> and
  \<open>hi\<close> characters of one class. \<open>re.match\<close> anchors at the start; \<open>$\<close> matches at the
  end of the string and also just before a newline that ends the string.
\<close>

definition in_range :: "char \<Rightarrow> char \<Rightarrow> nat \<Rightarrow> bool" where
  "in_range lo hi c \<longleftrightarrow> code_point lo \<le> c \<and> c \<le> code_point hi"

definition is_char :: "char \<Rightarrow> nat \<Rightarrow> bool" where
  "is_char x c \<longleftrightarrow> c = code_point x"

definition body_match :: "(nat \<Rightarrow> bool) list \<Rightarrow> (nat \<Rightarrow> bool) \<Rightarrow> nat \<Rightarrow> nat \<Rightarrow> pystr \<Rightarrow> bool" where
  "body_match pre cls lo hi b \<longleftrightarrow>
     length pre \<le> length b \<and>
     list_all2 (\<lambda>p c. p c) pre (take (length pre) b) \<and>
     lo \<le> length (drop (length pre) b) \<and> length (drop (length pre) b) \<le> hi \<and>
     list_all cls (drop (length pre) b)"

definition re_match :: "(nat \<Rightarrow> bool) list \<Rightarrow> (nat \<Rightarrow> bool) \<Rightarrow> nat \<Rightarrow> nat \<Rightarrow> pystr \<Rightarrow> bool" where
  "re_match pre cls lo hi s \<longleftrightarrow>
     body_match pre cls lo hi s \<or>
     (s \<noteq> [] \<and> last s = 10 \<and> body_match pre cls lo hi (butlast s))"

text \<open>The character classes \<open>[a-km-zA-HJ-NP-Z1-9]\<close>, \<open>[a-z0-9]\<close>, \<open>[a-fA-F0-9]\<close> and
  \<open>[a-zA-Z0-9]\<close>.\<close>

definition base58 :: "nat \<Rightarrow> bool" where
  "base58 c \<longleftrightarrow>
     in_range CHR ''a'' CHR ''k'' c \<or> in_range CHR ''m'' CHR ''z'' c \<or>
     in_range CHR ''A'' CHR ''H'' c \<or> in_range CHR ''J'' CHR ''N'' c \<or>
     in_range CHR ''P'' CHR ''Z'' c \<or> in_range CHR ''1'' CHR ''9'' c"

definition lower_digit :: "nat \<Rightarrow> bool" where
  "lower_digit c \<longleftrightarrow> in_range CHR ''a'' CHR ''z'' c \<or> in_range CHR ''0'' CHR ''9'' c"

definition hex_digit :: "nat \<Rightarrow> bool" where
  "hex_digit c \<longleftrightarrow>
     in_range CHR ''a'' CHR ''f'' c \<or> in_range CHR ''A'' CHR ''F'' c \<or>
     in_range CHR ''0'' CHR ''9'' c"

definition alnum :: "nat \<Rightarrow> bool" where
  "alnum c \<longleftrightarrow>
     in_range CHR ''a'' CHR ''z'' c \<or> in_range CHR ''A'' CHR ''Z'' c \<or>
     in_range CHR ''0'' CHR ''9'' c"

definition btc_legacy :: "pystr \<Rightarrow> bool" where
  "btc_legacy = re_match [\<lambda>c. is_char CHR ''1'' c \<or> is_char CHR ''3'' c] base58 25 34"

definition btc_segwit :: "pystr \<Rightarrow> bool" where
  "btc_segwit = re_match [is_char CHR ''b'', is_char CHR ''c'', is_char CHR ''1''] lower_digit 39 59"

definition eth_pattern :: "pystr \<Rightarrow> bool" where
  "eth_pattern = re_match [is_char CHR ''0'', is_char CHR ''x''] hex_digit 40 40"

definition ltc_pattern :: "pystr \<Rightarrow> bool" where
  "ltc_pattern =
     re_match [\<lambda>c. is_char CHR ''L'' c \<or> is_char CHR ''M'' c \<or> is_char CHR ''3'' c] base58 26 33"

definition generic_pattern :: "pystr \<Rightarrow> bool" where
  "generic_pattern = re_match [] alnum 26 90"

definition validate_wallet_address :: "pystr \<Rightarrow> bool \<times> pystr" where
  "validate_wallet_address address0 =
     (if address0 = [] then (False, py ''Wallet address cannot be empty'')
      else
        let address = strip address0 in
        if length address < 26 \<or> length address > 90
        then (False, py ''Invalid wallet address length'')
        else if btc_legacy address \<or> btc_segwit address \<or> eth_pattern address \<or>
                ltc_pattern address \<or> generic_pattern address
        then (True, py '''')
        else (False, py ''Invalid wallet address format. Please provide a valid cryptocurrency address.''))"


section \<open>config.py\<close>

text \<open>
  The thresholds are read from the environment when the module is loaded, and the two
  high-risk sets are module constants; the evaluator reads them through \<open>config\<close>.
  \<open>default_config\<close> holds the values of \<open>config.py\<close> with the environment unset.
\<close>

record config =
  RISK_SCORE_THRESHOLD :: pynum
  MAX_HOP_DISTANCE :: int
  GAMBLING_HOP_LIMIT :: int
  GAMBLING_CONTRIBUTION_THRESHOLD :: pynum
  HIGH_RISK_CATEGORIES :: "pystr set"
  HIGH_RISK_COUNTRIES :: "pystr set"

definition default_config :: config where
  "default_config = \<lparr>
     RISK_SCORE_THRESHOLD = Num 5,
     MAX_HOP_DISTANCE = 3,
     GAMBLING_HOP_LIMIT = 2,
     GAMBLING_CONTRIBUTION_THRESHOLD = Num 3,
     HIGH_RISK_CATEGORIES = set (map py
       [''Dark Forum'', ''Phishing'', ''Dark Market - Centralised'',
        ''Dark Market - Decentralised'', ''Dark Vendor Shop'', ''Ponzi Scheme'',
        ''Ransomware'', ''Dark Service'', ''Activist Fundraising'',
        ''Child Sexual Abuse Material Vendor'', ''Terrorist Organisation'',
        ''OFAC Sanctioned Entity'', ''Criminal Organisation'', ''Extortion'',
        ''Known Criminal'', ''FinCEN Primary Money Laundering Concern'', ''Shielded'',
        ''Mixer'', ''High Transaction Fee'', ''Research Chemicals'', ''Charity'', ''Scam'',
        ''Credit Card Data Vendor'', ''Malware'', ''Political Campaign'', ''Reported Loss'']),
     HIGH_RISK_COUNTRIES = set (map py
       [''IR'', ''CU'', ''VE'', ''KP'', ''SY'', ''MM'', ''UA-43'', ''UA-14'', ''UA-09'',
        ''UA-23'', ''UA-65'', ''RU''])
   \<rparr>"


section \<open>elliptic\_client.py: the category mapping\<close>

text \<open>
  A Python \<open>dict\<close> keeps one entry per key, in insertion order; assigning to a key that
  is present replaces its value in place. It is modelled as an association list
  maintained by \<open>AList.update\<close>: \<open>items()\<close> is the list itself, and \<open>get(k, d)\<close> looks
  the key up.
\<close>

type_synonym category_mapping = "(pystr \<times> pystr) list"

definition dict_get :: "('k \<times> 'v) list \<Rightarrow> 'k \<Rightarrow> 'v \<Rightarrow> 'v" where
  "dict_get m k d = (case map_of m k of None \<Rightarrow> d | Some v \<Rightarrow> v)"

text \<open>
  The body of the loop of \<open>_load_category_mapping\<close>: a row with at least two cells
  stores its second cell, stripped, under its first cell, stripped.
\<close>

fun load_row :: "category_mapping \<Rightarrow> pystr list \<Rightarrow> category_mapping" where
  "load_row m (category_id # category_name # _) =
     AList.update (strip category_id) (strip category_name) m"
| "load_row m _ = m"

text \<open>
  The argument is what the CSV reader delivers: \<open>None\<close> when the file cannot be opened,
  otherwise the rows read before the reader ends or raises. The first row is the header
  (\<open>next(reader)\<close>; on an empty file it raises \<open>StopIteration\<close>). Every exception is caught
  and logged, and the mapping built so far is returned.
\<close>

fun load_category_mapping :: "pystr list list option \<Rightarrow> category_mapping" where
  "load_category_mapping None = []"
| "load_category_mapping (Some []) = []"
| "load_category_mapping (Some (header # rows)) = foldl load_row [] rows"

text \<open>The set comprehension at the head of the exposure walk.\<close>

definition high_risk_category_ids :: "config \<Rightarrow> category_mapping \<Rightarrow> pystr set" where
  "high_risk_category_ids cfg category_mapping =
     set (map fst (filter (\<lambda>(cat_id, cat_name). cat_name \<in> HIGH_RISK_CATEGORIES cfg)
       category_mapping))"

text \<open>\<open>self.category_mapping.get(category_id, "Unknown")\<close>.\<close>

definition category_name :: "category_mapping \<Rightarrow> pystr \<Rightarrow> pystr" where
  "category_name category_mapping category_id =
     dict_get category_mapping category_id (py ''Unknown'')"


section \<open>elliptic\_client.py: the response and the verdict\<close>

text \<open>
  The response of the API is a JSON object. Each object the evaluator reads is a record
  with one optional field per key it looks up: \<open>None\<close> is an absent key, for which the
  code supplies the default of its \<open>.get\<close>. The value under \<open>country\<close> is tested with
  \<open>isinstance(country_codes, list)\<close>, so it is either a list of codes or something else.
\<close>

datatype country_json = CountryList "pystr list" | CountryOther

record risk_triggers_json =
  country :: "country_json option"

record contribution_json =
  min_number_of_hops :: "int option"
  indirect_percentage :: "pynum option"
  risk_triggers :: "risk_triggers_json option"

record matched_element_json =
  category_id :: "pystr option"
  contributions :: "contribution_json list option"

record exposure_json =
  matched_elements :: "matched_element_json list option"

record evaluation_detail_json =
  source :: "exposure_json list option"
  destination :: "exposure_json list option"

record response_json =
  risk_score :: "pynum option"
  evaluation_detail :: "evaluation_detail_json option"

text \<open>
  An entry of a triggered list is the dict with the keys \<open>category\<close>, \<open>hops\<close> and
  \<open>contribution\<close>. \<open>triggered_rules\<close> is the dict with the two keys \<open>"Source"\<close> and
  \<open>"Destination"\<close>, each holding a list. \<open>details\<close> is the dict returned beside the
  decision, with its keys in the order of the dict display.
\<close>

record rule_hit =
  category :: pystr
  hops :: int
  contribution :: pynum

datatype risk_type = Source | Destination

type_synonym triggered_rules = "risk_type \<Rightarrow> rule_hit list"

datatype pyvalue =
  VText fstr | VStr pystr | VInt int | VNum pynum | VRules triggered_rules

type_synonym details = "(string \<times> pyvalue) list"

datatype walk = Return "fstr \<times> details" | Continue triggered_rules


section \<open>elliptic\_client.py: apply\_compliance\_rules\<close>

text \<open>\<open>contribution.get("risk_triggers", {}).get("country", [])\<close>.\<close>

definition country_codes :: "contribution_json \<Rightarrow> country_json" where
  "country_codes c =
     (case risk_triggers c of
        None \<Rightarrow> CountryList []
      | Some t \<Rightarrow> (case country t of None \<Rightarrow> CountryList [] | Some v \<Rightarrow> v))"

text \<open>
  Rule 3, the loop over the country codes: the first code that is a high-risk country
  while the hops are within the limit, if the value is a list and has one.
\<close>

definition high_risk_country :: "config \<Rightarrow> int \<Rightarrow> country_json \<Rightarrow> pystr option" where
  "high_risk_country cfg min_hops v =
     (case v of
        CountryList codes \<Rightarrow>
          find (\<lambda>country_code. country_code \<in> HIGH_RISK_COUNTRIES cfg \<and>
                  min_hops \<le> MAX_HOP_DISTANCE cfg) codes
      | CountryOther \<Rightarrow> None)"

text \<open>
  The body of the innermost loop, for one contribution. \<open>rnd\<close> is Python's
  \<open>round(x, 2)\<close>; \<open>hr\<close> is \<open>high_risk_category_ids\<close>.
\<close>

definition visit_contribution ::
  "config \<Rightarrow> (pynum \<Rightarrow> pynum) \<Rightarrow> pystr set \<Rightarrow> pynum \<Rightarrow> risk_type \<Rightarrow> pystr \<Rightarrow> pystr \<Rightarrow>
   triggered_rules \<Rightarrow> contribution_json \<Rightarrow> walk" where
  "visit_contribution cfg rnd hr score rt cat_id cat triggered c =
     (let min_hops = (case min_number_of_hops c of None \<Rightarrow> 999 | Some h \<Rightarrow> h);
          pct = (case indirect_percentage c of None \<Rightarrow> Num 0 | Some p \<Rightarrow> p);
          triggered = triggered(rt := triggered rt @
            [\<lparr>category = cat, hops = min_hops, contribution = rnd pct\<rparr>])
      in
        if cat_id \<in> hr \<and> min_hops \<le> MAX_HOP_DISTANCE cfg then
          Return (Lit ''Rejected - '' # [StrV cat, Lit '' detected within '', IntV min_hops, Lit '' hops''],
            [(''reason'', VText [StrV cat, Lit '' detected within '', IntV min_hops, Lit '' hops'']),
             (''risk_score'', VNum score),
             (''category'', VStr cat),
             (''hops'', VInt min_hops),
             (''triggered_rules'', VRules triggered)])
        else
          (case high_risk_country cfg min_hops (country_codes c) of
             Some country_code \<Rightarrow>
               Return (Lit ''Rejected - '' # [Lit ''High-risk country '', StrV country_code,
                   Lit '' detected within '', IntV min_hops, Lit '' hops''],
                 [(''reason'', VText [Lit ''High-risk country '', StrV country_code,
                     Lit '' detected within '', IntV min_hops, Lit '' hops'']),
                  (''risk_score'', VNum score),
                  (''country'', VStr country_code),
                  (''hops'', VInt min_hops),
                  (''triggered_rules'', VRules triggered)])
           | None \<Rightarrow>
               if cat = py ''Gambling'' then
                 if min_hops \<le> GAMBLING_HOP_LIMIT cfg then
                   Return (Lit ''Rejected - '' # [Lit ''Gambling found at '', IntV min_hops, Lit '' hops''],
                     [(''reason'', VText [Lit ''Gambling found at '', IntV min_hops, Lit '' hops'']),
                      (''risk_score'', VNum score),
                      (''category'', VStr cat),
                      (''hops'', VInt min_hops),
                      (''triggered_rules'', VRules triggered)])
                 else if min_hops = 3 \<and> py_gt pct (GAMBLING_CONTRIBUTION_THRESHOLD cfg) then
                   Return (Lit ''Rejected - '' # [Lit ''Gambling at 3 hops with '', Num2f pct,
                       Lit ''% contribution''],
                     [(''reason'', VText [Lit ''Gambling at 3 hops with '', Num2f pct,
                         Lit ''% contribution'']),
                      (''risk_score'', VNum score),
                      (''category'', VStr cat),
                      (''hops'', VInt min_hops),
                      (''contribution'', VNum pct),
                      (''triggered_rules'', VRules triggered)])
                 else Continue triggered
               else Continue triggered))"

text \<open>\<open>for contribution in matched_element.get("contributions", [])\<close>, leaving at the
  first \<open>return\<close>.\<close>

fun walk_contributions ::
  "config \<Rightarrow> (pynum \<Rightarrow> pynum) \<Rightarrow> pystr set \<Rightarrow> pynum \<Rightarrow> risk_type \<Rightarrow> pystr \<Rightarrow> pystr \<Rightarrow>
   triggered_rules \<Rightarrow> contribution_json list \<Rightarrow> walk" where
  "walk_contributions cfg rnd hr score rt cat_id cat triggered [] = Continue triggered"
| "walk_contributions cfg rnd hr score rt cat_id cat triggered (c # cs) =
     (case visit_contribution cfg rnd hr score rt cat_id cat triggered c of
        Return r \<Rightarrow> Return r
      | Continue triggered' \<Rightarrow> walk_contributions cfg rnd hr score rt cat_id cat triggered' cs)"

text \<open>The body of the loop over the matched elements of one exposure.\<close>

definition visit_element ::
  "config \<Rightarrow> (pynum \<Rightarrow> pynum) \<Rightarrow> category_mapping \<Rightarrow> pystr set \<Rightarrow> pynum \<Rightarrow> risk_type \<Rightarrow>
   triggered_rules \<Rightarrow> matched_element_json \<Rightarrow> walk" where
  "visit_element cfg rnd mapping hr score rt triggered matched_element =
     (let cat_id = (case category_id matched_element of None \<Rightarrow> py ''Unknown'' | Some i \<Rightarrow> i);
          cat = category_name mapping cat_id
      in walk_contributions cfg rnd hr score rt cat_id cat triggered
           (case contributions matched_element of None \<Rightarrow> [] | Some cs \<Rightarrow> cs))"

fun walk_elements ::
  "config \<Rightarrow> (pynum \<Rightarrow> pynum) \<Rightarrow> category_mapping \<Rightarrow> pystr set \<Rightarrow> pynum \<Rightarrow> risk_type \<Rightarrow>
   triggered_rules \<Rightarrow> matched_element_json list \<Rightarrow> walk" where
  "walk_elements cfg rnd mapping hr score rt triggered [] = Continue triggered"
| "walk_elements cfg rnd mapping hr score rt triggered (e # es) =
     (case visit_element cfg rnd mapping hr score rt triggered e of
        Return r \<Rightarrow> Return r
      | Continue triggered' \<Rightarrow> walk_elements cfg rnd mapping hr score rt triggered' es)"

text \<open>\<open>for exposure in exposure_list\<close>, each exposure walking
  \<open>exposure.get("matched_elements", [])\<close>.\<close>

fun walk_exposures ::
  "config \<Rightarrow> (pynum \<Rightarrow> pynum) \<Rightarrow> category_mapping \<Rightarrow> pystr set \<Rightarrow> pynum \<Rightarrow> risk_type \<Rightarrow>
   triggered_rules \<Rightarrow> exposure_json list \<Rightarrow> walk" where
  "walk_exposures cfg rnd mapping hr score rt triggered [] = Continue triggered"
| "walk_exposures cfg rnd mapping hr score rt triggered (x # xs) =
     (case walk_elements cfg rnd mapping hr score rt triggered
             (case matched_elements x of None \<Rightarrow> [] | Some es \<Rightarrow> es) of
        Return r \<Rightarrow> Return r
      | Continue triggered' \<Rightarrow> walk_exposures cfg rnd mapping hr score rt triggered' xs)"

text \<open>The outer loop, over \<open>[(source_exposures, "Source"), (destination_exposures,
  "Destination")]\<close>.\<close>

fun walk_lists ::
  "config \<Rightarrow> (pynum \<Rightarrow> pynum) \<Rightarrow> category_mapping \<Rightarrow> pystr set \<Rightarrow> pynum \<Rightarrow>
   triggered_rules \<Rightarrow> (exposure_json list \<times> risk_type) list \<Rightarrow> walk" where
  "walk_lists cfg rnd mapping hr score triggered [] = Continue triggered"
| "walk_lists cfg rnd mapping hr score triggered ((exposure_list, rt) # rest) =
     (case walk_exposures cfg rnd mapping hr score rt triggered exposure_list of
        Return r \<Rightarrow> Return r
      | Continue triggered' \<Rightarrow> walk_lists cfg rnd mapping hr score triggered' rest)"

text \<open>\<open>response_data.get("evaluation_detail", {}).get("source", [])\<close>, and the same for
  \<open>"destination"\<close>.\<close>

definition source_exposures :: "response_json \<Rightarrow> exposure_json list" where
  "source_exposures response_data =
     (case evaluation_detail response_data of
        None \<Rightarrow> []
      | Some d \<Rightarrow> (case source d of None \<Rightarrow> [] | Some xs \<Rightarrow> xs))"

definition destination_exposures :: "response_json \<Rightarrow> exposure_json list" where
  "destination_exposures response_data =
     (case evaluation_detail response_data of
        None \<Rightarrow> []
      | Some d \<Rightarrow> (case destination d of None \<Rightarrow> [] | Some xs \<Rightarrow> xs))"

definition apply_compliance_rules ::
  "config \<Rightarrow> (pynum \<Rightarrow> pynum) \<Rightarrow> category_mapping \<Rightarrow> response_json \<Rightarrow> fstr \<times> details" where
  "apply_compliance_rules cfg rnd mapping response_data =
     (let triggered = (\<lambda>_. []) in
      case risk_score response_data of
        None \<Rightarrow>
          ([Lit ''Approved''],
           [(''reason'', VText [Lit ''No risk score found'']),
            (''triggered_rules'', VRules triggered)])
      | Some score \<Rightarrow>
          if py_ge score (RISK_SCORE_THRESHOLD cfg) then
            (Lit ''Rejected - '' # [Lit ''High Risk Score ('', NumV score, Lit '')''],
             [(''reason'', VText [Lit ''High Risk Score ('', NumV score, Lit '')'']),
              (''risk_score'', VNum score),
              (''triggered_rules'', VRules triggered)])
          else
            (case walk_lists cfg rnd mapping (high_risk_category_ids cfg mapping) score triggered
                    [(source_exposures response_data, Source),
                     (destination_exposures response_data, Destination)] of
               Return r \<Rightarrow> r
             | Continue triggered' \<Rightarrow>
                 ([Lit ''Approved''],
                  [(''reason'', VText [Lit ''All compliance checks passed'']),
                   (''risk_score'', VNum score),
                   (''triggered_rules'', VRules triggered')])))"

text \<open>Reading the result: the decision strings the callers test, and the lists under
  \<open>details["triggered_rules"]\<close>.\<close>

definition is_approved :: "fstr \<Rightarrow> bool" where
  "is_approved decision \<longleftrightarrow> decision = [Lit ''Approved'']"

definition is_rejected :: "fstr \<Rightarrow> bool" where
  "is_rejected decision \<longleftrightarrow> decision \<noteq> [] \<and> hd decision = Lit ''Rejected - ''"

definition rules_of :: "details \<Rightarrow> risk_type \<Rightarrow> rule_hit list option" where
  "rules_of d rt =
     (case map_of d ''triggered_rules'' of Some (VRules t) \<Rightarrow> Some (t rt) | _ \<Rightarrow> None)"


section \<open>The exposure walk as a sequence of visits\<close>

text \<open>
  The specification describes the walk as a sequence of visited contributions: the
  exposures of the source list, then those of the destination list, each exposure's
  matched elements in the given order, each element's contributions in the given order.
  The definitions of this section follow that description; the theorems below relate
  them to the loops of \<open>apply_compliance_rules\<close>. A visit carries the side, the category
  id and category name of its matched element, and the contribution.
\<close>

type_synonym visit = "risk_type \<times> pystr \<times> pystr \<times> contribution_json"

definition element_visits ::
  "category_mapping \<Rightarrow> risk_type \<Rightarrow> matched_element_json \<Rightarrow> visit list" where
  "element_visits mapping rt e =
     (let cat_id = (case category_id e of None \<Rightarrow> py ''Unknown'' | Some i \<Rightarrow> i)
      in map (\<lambda>c. (rt, cat_id, category_name mapping cat_id, c))
           (case contributions e of None \<Rightarrow> [] | Some cs \<Rightarrow> cs))"

definition exposure_visits ::
  "category_mapping \<Rightarrow> risk_type \<Rightarrow> exposure_json \<Rightarrow> visit list" where
  "exposure_visits mapping rt x =
     concat (map (element_visits mapping rt)
       (case matched_elements x of None \<Rightarrow> [] | Some es \<Rightarrow> es))"

definition visits :: "category_mapping \<Rightarrow> response_json \<Rightarrow> visit list" where
  "visits mapping response_data =
     concat (map (exposure_visits mapping Source) (source_exposures response_data)) @
     concat (map (exposure_visits mapping Destination) (destination_exposures response_data))"

text \<open>The hops and the percentage of a contribution, with the defaults for a missing
  field, and the entry recorded for a visit.\<close>

definition hops_of :: "contribution_json \<Rightarrow> int" where
  "hops_of c = (case min_number_of_hops c of None \<Rightarrow> 999 | Some h \<Rightarrow> h)"

definition pct_of :: "contribution_json \<Rightarrow> pynum" where
  "pct_of c = (case indirect_percentage c of None \<Rightarrow> Num 0 | Some p \<Rightarrow> p)"

definition hit_of :: "(pynum \<Rightarrow> pynum) \<Rightarrow> visit \<Rightarrow> rule_hit" where
  "hit_of rnd v =
     (case v of (rt, cat_id, cat, c) \<Rightarrow>
        \<lparr>category = cat, hops = hops_of c, contribution = rnd (pct_of c)\<rparr>)"

text \<open>
  The rejection conditions 3a, 3b and 3c of the specification for one visit: a high-risk
  category within the hop limit, a high-risk country within the hop limit, or gambling
  within its hop limit or at exactly three hops above the contribution threshold.
\<close>

definition rejects :: "config \<Rightarrow> pystr set \<Rightarrow> visit \<Rightarrow> bool" where
  "rejects cfg hr v =
     (case v of (rt, cat_id, cat, c) \<Rightarrow>
        (cat_id \<in> hr \<and> hops_of c \<le> MAX_HOP_DISTANCE cfg) \<or>
        (case country_codes c of
           CountryList codes \<Rightarrow>
             list_ex (\<lambda>code. code \<in> HIGH_RISK_COUNTRIES cfg) codes \<and>
             hops_of c \<le> MAX_HOP_DISTANCE cfg
         | CountryOther \<Rightarrow> False) \<or>
        (cat = py ''Gambling'' \<and>
           (hops_of c \<le> GAMBLING_HOP_LIMIT cfg \<or>
            (hops_of c = 3 \<and> py_gt (pct_of c) (GAMBLING_CONTRIBUTION_THRESHOLD cfg)))))"

text \<open>The elements of a list up to and including the first one that satisfies \<open>P\<close>; the
  whole list when none does.\<close>

definition take_through :: "('a \<Rightarrow> bool) \<Rightarrow> 'a list \<Rightarrow> 'a list" where
  "take_through P xs = takeWhile (\<lambda>x. \<not> P x) xs @ take 1 (dropWhile (\<lambda>x. \<not> P x) xs)"

definition add_hit :: "(pynum \<Rightarrow> pynum) \<Rightarrow> triggered_rules \<Rightarrow> visit \<Rightarrow> triggered_rules" where
  "add_hit rnd t v = t(fst v := t (fst v) @ [hit_of rnd v])"

text \<open>The innermost loop body run over a sequence of visits.\<close>

fun walk_visits ::
  "config \<Rightarrow> (pynum \<Rightarrow> pynum) \<Rightarrow> pystr set \<Rightarrow> pynum \<Rightarrow> triggered_rules \<Rightarrow> visit list \<Rightarrow> walk" where
  "walk_visits cfg rnd hr score t [] = Continue t"
| "walk_visits cfg rnd hr score t ((rt, cat_id, cat, c) # vs) =
     (case visit_contribution cfg rnd hr score rt cat_id cat t c of
        Return r \<Rightarrow> Return r
      | Continue t' \<Rightarrow> walk_visits cfg rnd hr score t' vs)"


section \<open>database.py\<close>

text \<open>
  The three tables are lists of rows, in insertion order. A time stamp is a number of
  seconds on a linear clock. The functions below are modelled with every SQL statement
  succeeding, so the \<open>except\<close> branches, which log and return a default, are not taken.
  The column \<open>id\<close> of \<open>users\<close> is the field \<open>uid\<close> (\<open>id\<close> is HOL's identity function); the
  columns \<open>created_at\<close> and \<open>updated_at\<close> are read by none of these functions and are left
  out.
\<close>

datatype sql_value = SqlNull | SqlNum pynum | SqlText pystr

record user_row =
  uid :: int
  telegram_id :: pystr
  telegram_username :: "pystr option"
  is_admin :: bool
  is_active :: bool
  daily_limit :: int
  monthly_limit :: int

record usage_row =
  log_user_id :: int
  log_wallet_address :: pystr
  log_risk_score :: sql_value
  log_decision :: fstr
  log_timestamp :: int

record error_row =
  err_user_id :: "int option"
  err_type :: string
  err_message :: fstr
  err_wallet_address :: pystr
  err_timestamp :: int

record database =
  users :: "user_row list"
  usage_logs :: "usage_row list"
  error_logs :: "error_row list"

text \<open>\<open>SELECT * FROM users WHERE telegram_id = ?\<close> and \<open>fetchone\<close>.\<close>

definition get_user :: "database \<Rightarrow> pystr \<Rightarrow> user_row option" where
  "get_user db tid = find (\<lambda>u. telegram_id u = tid) (users db)"



text \<open>\<open>now\<close> is \<open>datetime.now()\<close>; \<open>timedelta(days=1)\<close> is 86400 seconds.\<close>

definition get_usage_count :: "database \<Rightarrow> int \<Rightarrow> pystr \<Rightarrow> string \<Rightarrow> int" where
  "get_usage_count db now tid period =
     (case get_user db tid of
        None \<Rightarrow> 0
      | Some user \<Rightarrow>
          if period = ''day'' then
            int (length (filter (\<lambda>r. log_user_id r = uid user \<and> log_timestamp r \<ge> now - 86400)
              (usage_logs db)))
          else if period = ''month'' then
            int (length (filter (\<lambda>r. log_user_id r = uid user \<and> log_timestamp r \<ge> now - 30 * 86400)
              (usage_logs db)))
          else 0)"

text \<open>\<open>now_day\<close> and \<open>now_month\<close> are the clock readings of the two calls of
  \<open>get_usage_count\<close>.\<close>

definition check_usage_limit ::
  "database \<Rightarrow> int \<Rightarrow> int \<Rightarrow> pystr \<Rightarrow> bool \<times> fstr \<times> int \<times> int" where
  "check_usage_limit db now_day now_month tid =
     (case get_user db tid of
        None \<Rightarrow> (False, [Lit ''User not authorized''], 0, 0)
      | Some user \<Rightarrow>
          let daily_usage = get_usage_count db now_day tid ''day'';
              monthly_usage = get_usage_count db now_month tid ''month'';
              remaining_daily = max 0 (daily_limit user - daily_usage);
              remaining_monthly = max 0 (monthly_limit user - monthly_usage)
          in
            if daily_usage \<ge> daily_limit user then
              (False, [Lit ''Daily limit reached ('', IntV (daily_limit user), Lit '' queries/day)''],
               remaining_daily, remaining_monthly)
            else if monthly_usage \<ge> monthly_limit user then
              (False, [Lit ''Monthly limit reached ('', IntV (monthly_limit user), Lit '' queries/month)''],
               remaining_daily, remaining_monthly)
            else (True, [Lit ''OK''], remaining_daily, remaining_monthly))"



section \<open>elliptic\_client.py: analyze\_wallet\<close>







section \<open>bot.py: analyze\_wallet\<close>





section \<open>Example data\<close>

text \<open>A small category mapping, responses with a single contribution, a response with
  several contributions on both sides, a database with one user, and an address.\<close>

definition example_mapping :: category_mapping where
  "example_mapping =
     [(py ''c-mixer'', py ''Mixer''), (py ''c-gambling'', py ''Gambling''),
      (py ''c-exchange'', py ''Exchange'')]"

definition example_response :: "pynum option \<Rightarrow> pystr \<Rightarrow> contribution_json \<Rightarrow> response_json" where
  "example_response score cat_id c =
     \<lparr>risk_score = score,
      evaluation_detail = Some
        \<lparr>source = Some [\<lparr>matched_elements = Some
            [\<lparr>category_id = Some cat_id, contributions = Some [c]\<rparr>]\<rparr>],
         destination = None\<rparr>\<rparr>"

definition example_walk :: response_json where
  "example_walk =
     \<lparr>risk_score = Some (Num 1),
      evaluation_detail = Some
        \<lparr>source = Some
           [\<lparr>matched_elements = Some
              [\<lparr>category_id = Some (py ''c-exchange''), contributions = Some
                  [\<lparr>min_number_of_hops = Some 1, indirect_percentage = Some (Num 12),
                    risk_triggers = None\<rparr>]\<rparr>,
               \<lparr>category_id = Some (py ''c-mixer''), contributions = Some
                  [\<lparr>min_number_of_hops = Some 5, indirect_percentage = None,
                    risk_triggers = None\<rparr>,
                   \<lparr>min_number_of_hops = Some 2, indirect_percentage = Some (Num 7),
                    risk_triggers = None\<rparr>,
                   \<lparr>min_number_of_hops = Some 1, indirect_percentage = Some (Num 8),
                    risk_triggers = None\<rparr>]\<rparr>]\<rparr>],
         destination = Some
           [\<lparr>matched_elements = Some
              [\<lparr>category_id = Some (py ''c-gambling''), contributions = Some
                  [\<lparr>min_number_of_hops = Some 1, indirect_percentage = Some (Num 9),
                    risk_triggers = None\<rparr>]\<rparr>]\<rparr>]\<rparr>\<rparr>"

definition example_db :: database where
  "example_db =
     \<lparr>users =
        [\<lparr>uid = 1, telegram_id = py ''alice'', telegram_username = Some (py ''alice''),
          is_admin = False, is_active = True, daily_limit = 1, monthly_limit = 300\<rparr>],
      usage_logs = [],
      error_logs = []\<rparr>"

definition example_address :: pystr where
  "example_address = py ''0x52908400098527886E0F7030069857D2E4169EE7''"


section \<open>Properties of validators.py\<close>

lemma strip_no_trailing_space: "strip s = [] \<or> \<not> isspace (last (strip s))"
proof (cases "dropWhile isspace (rev (dropWhile isspace s))")
  case Nil
  then show ?thesis by (simp add: strip_def)
next
  case (Cons x xs)
  then have "\<not> isspace x"
    by (metis hd_dropWhile list.sel(1) list.distinct(1))
  with Cons show ?thesis by (simp add: strip_def)
qed

lemma strip_not_newline_ended: "strip s \<noteq> [] \<Longrightarrow> last (strip s) \<noteq> 10"
  using strip_no_trailing_space [of s] by (auto simp: isspace_def)

lemma re_match_strip: "re_match pre cls lo hi (strip s) = body_match pre cls lo hi (strip s)"
  using strip_not_newline_ended [of s] by (auto simp: re_match_def)

lemma in_range_alnum:
  "in_range CHR ''a'' CHR ''k'' c \<Longrightarrow> alnum c"
  "in_range CHR ''m'' CHR ''z'' c \<Longrightarrow> alnum c"
  "in_range CHR ''a'' CHR ''f'' c \<Longrightarrow> alnum c"
  "in_range CHR ''A'' CHR ''H'' c \<Longrightarrow> alnum c"
  "in_range CHR ''J'' CHR ''N'' c \<Longrightarrow> alnum c"
  "in_range CHR ''P'' CHR ''Z'' c \<Longrightarrow> alnum c"
  "in_range CHR ''A'' CHR ''F'' c \<Longrightarrow> alnum c"
  "in_range CHR ''1'' CHR ''9'' c \<Longrightarrow> alnum c"
  by (simp_all add: alnum_def in_range_def code_point_def)

lemma is_char_alnum:
  "is_char CHR ''1'' c \<Longrightarrow> alnum c"
  "is_char CHR ''3'' c \<Longrightarrow> alnum c"
  "is_char CHR ''0'' c \<Longrightarrow> alnum c"
  "is_char CHR ''b'' c \<Longrightarrow> alnum c"
  "is_char CHR ''c'' c \<Longrightarrow> alnum c"
  "is_char CHR ''x'' c \<Longrightarrow> alnum c"
  "is_char CHR ''L'' c \<Longrightarrow> alnum c"
  "is_char CHR ''M'' c \<Longrightarrow> alnum c"
  by (simp_all add: alnum_def is_char_def in_range_def code_point_def)

lemma base58_alnum: "base58 c \<Longrightarrow> alnum c"
  by (auto simp: base58_def dest: in_range_alnum)

lemma lower_digit_alnum: "lower_digit c \<Longrightarrow> alnum c"
  by (auto simp: lower_digit_def alnum_def)

lemma hex_digit_alnum: "hex_digit c \<Longrightarrow> alnum c"
  by (auto simp: hex_digit_def dest: in_range_alnum) (simp add: alnum_def)

text \<open>
  A body made of \<open>k\<close> alphanumeric prefix characters and between \<open>lo\<close> and \<open>hi\<close>
  alphanumeric characters is a body of the generic pattern when its total length lies
  between 26 and 90.
\<close>

lemma body_match_generic:
  assumes m: "body_match pre cls lo hi b"
    and pre: "\<And>p c. p \<in> set pre \<Longrightarrow> p c \<Longrightarrow> alnum c"
    and cls: "\<And>c. cls c \<Longrightarrow> alnum c"
    and lo: "26 \<le> length pre + lo" and hi: "length pre + hi \<le> 90"
  shows "body_match [] alnum 26 90 b"
proof -
  let ?k = "length pre"
  from m have len: "?k \<le> length b" "lo \<le> length b - ?k" "length b - ?k \<le> hi"
    and p: "list_all2 (\<lambda>p c. p c) pre (take ?k b)"
    and r: "list_all cls (drop ?k b)"
    by (simp_all add: body_match_def)
  have "list_all alnum (take ?k b)"
    unfolding list_all_iff
  proof
    fix c assume "c \<in> set (take ?k b)"
    then obtain i where i: "i < length (take ?k b)" "c = take ?k b ! i"
      by (auto simp: in_set_conv_nth)
    with p have "(pre ! i) c" "i < length pre"
      by (auto simp: list_all2_conv_all_nth)
    then show "alnum c" using pre [of "pre ! i" c] by simp
  qed
  moreover have "list_all alnum (drop ?k b)"
    using r cls by (auto simp: list_all_iff)
  ultimately have "list_all alnum (take ?k b @ drop ?k b)"
    by (simp only: list_all_append simp_thms)
  then have "list_all alnum b" by simp
  moreover have "26 \<le> length b" "length b \<le> 90"
    using len lo hi by linarith+
  ultimately show ?thesis by (simp add: body_match_def)
qed

lemma btc_legacy_generic: "btc_legacy (strip s) \<Longrightarrow> generic_pattern (strip s)"
  unfolding btc_legacy_def generic_pattern_def re_match_strip
  by (erule body_match_generic) (auto dest: is_char_alnum base58_alnum)

lemma btc_segwit_generic: "btc_segwit (strip s) \<Longrightarrow> generic_pattern (strip s)"
  unfolding btc_segwit_def generic_pattern_def re_match_strip
  by (erule body_match_generic) (auto dest: is_char_alnum lower_digit_alnum)

lemma eth_pattern_generic: "eth_pattern (strip s) \<Longrightarrow> generic_pattern (strip s)"
  unfolding eth_pattern_def generic_pattern_def re_match_strip
  by (erule body_match_generic) (auto dest: is_char_alnum hex_digit_alnum)

lemma ltc_pattern_generic: "ltc_pattern (strip s) \<Longrightarrow> generic_pattern (strip s)"
  unfolding ltc_pattern_def generic_pattern_def re_match_strip
  by (erule body_match_generic) (auto dest: is_char_alnum base58_alnum)

lemma generic_pattern_length:
  "generic_pattern (strip s) \<Longrightarrow> 26 \<le> length (strip s) \<and> length (strip s) \<le> 90"
  unfolding generic_pattern_def re_match_strip by (simp add: body_match_def)

text \<open>
  Claim C10. For every input string, \<open>validate_wallet_address\<close> accepts exactly when the
  input is not empty and its stripped form matches the generic pattern
  \<open>^[a-zA-Z0-9]{26,90}$\<close>. The Bitcoin, Ethereum and Litecoin patterns and the length
  check never change the outcome: each chain-specific pattern implies the generic one
  (the four last conjuncts), and the generic pattern implies the length bounds.
\<close>

theorem validate_wallet_address_generic:
  "(fst (validate_wallet_address a) \<longleftrightarrow> a \<noteq> [] \<and> generic_pattern (strip a)) \<and>
   (btc_legacy (strip a) \<longrightarrow> generic_pattern (strip a)) \<and>
   (btc_segwit (strip a) \<longrightarrow> generic_pattern (strip a)) \<and>
   (eth_pattern (strip a) \<longrightarrow> generic_pattern (strip a)) \<and>
   (ltc_pattern (strip a) \<longrightarrow> generic_pattern (strip a))"
proof -
  have "fst (validate_wallet_address a) \<longleftrightarrow> a \<noteq> [] \<and> generic_pattern (strip a)"
    using btc_legacy_generic [of a] btc_segwit_generic [of a] eth_pattern_generic [of a]
      ltc_pattern_generic [of a] generic_pattern_length [of a]
    by (auto simp: validate_wallet_address_def Let_def)
  then show ?thesis
    using btc_legacy_generic [of a] btc_segwit_generic [of a] eth_pattern_generic [of a]
      ltc_pattern_generic [of a]
    by blast
qed

lemma eth_address_matches:
  "eth_pattern (strip (py '' 0x52908400098527886E0F7030069857D2E4169EE7 ''))"
  by (simp add: eth_pattern_def re_match_def body_match_def strip_def py_def code_point_def
      isspace_def is_char_def hex_digit_def in_range_def)

theorem validate_wallet_address_generic_witness:
  "fst (validate_wallet_address (py '' 0x52908400098527886E0F7030069857D2E4169EE7 '')) \<and>
   py '' 0x52908400098527886E0F7030069857D2E4169EE7 '' \<noteq> [] \<and>
   generic_pattern (strip (py '' 0x52908400098527886E0F7030069857D2E4169EE7 '')) \<and>
   eth_pattern (strip (py '' 0x52908400098527886E0F7030069857D2E4169EE7 ''))"
  using validate_wallet_address_generic [of "py '' 0x52908400098527886E0F7030069857D2E4169EE7 ''"]
    eth_address_matches
  by (simp add: py_def)


section \<open>Helper facts on the example data\<close>

lemma py_eq_iff [simp]: "py s = py t \<longleftrightarrow> s = t"
proof -
  have "inj code_point" by (simp add: inj_def code_point_def)
  then show ?thesis by (simp add: py_def inj_map_eq_map)
qed

lemmas example_simps =
  example_mapping_def example_response_def example_walk_def default_config_def
  visits_def source_exposures_def destination_exposures_def exposure_visits_def
  element_visits_def category_name_def dict_get_def high_risk_category_ids_def
  country_codes_def py_ge_def py_gt_def Let_def

lemma example_visits:
  "visits example_mapping (example_response score i c) = [(Source, i, category_name example_mapping i, c)]"
  by (simp add: example_response_def visits_def source_exposures_def destination_exposures_def
      exposure_visits_def element_visits_def)




section \<open>Properties of the category mapping\<close>

lemma distinct_load_row: "distinct (map fst m) \<Longrightarrow> distinct (map fst (load_row m row))"
  by (cases "(m, row)" rule: load_row.cases) (simp_all add: distinct_update)

lemma distinct_foldl_load_row:
  "distinct (map fst m) \<Longrightarrow> distinct (map fst (foldl load_row m rows))"
  by (induction rows arbitrary: m) (simp_all add: distinct_load_row)

lemma distinct_load_category_mapping: "distinct (map fst (load_category_mapping src))"
  by (cases src rule: load_category_mapping.cases) (simp_all add: distinct_foldl_load_row)

lemma category_name_known:
  "distinct (map fst m) \<Longrightarrow> (i, name) \<in> set m \<Longrightarrow> category_name m i = name"
  by (simp add: category_name_def dict_get_def)

text \<open>
  Claim C9. The registry maps every category id that is not a key of the mapping to
  \<open>"Unknown"\<close>; the lookup is a function of the mapping and the id alone, so repeating it
  gives the same name. The high-risk id set is a function of the configuration and the
  mapping alone (the evaluator takes the mapping and returns only the verdict, so no
  evaluation changes it), and for a mapping with one entry per key, as
  \<open>_load_category_mapping\<close> always builds, it is the set of known ids whose mapped name
  is a high-risk name. For the empty mapping the set is empty and every lookup is
  \<open>"Unknown"\<close>.
\<close>

theorem registry_lookup:
  "distinct (map fst (load_category_mapping src)) \<and>
   (cat_id \<notin> fst ` set m \<longrightarrow> category_name m cat_id = py ''Unknown'') \<and>
   (distinct (map fst m) \<longrightarrow>
      high_risk_category_ids cfg m =
        {i \<in> fst ` set m. category_name m i \<in> HIGH_RISK_CATEGORIES cfg}) \<and>
   high_risk_category_ids cfg (load_category_mapping src) =
     {i \<in> fst ` set (load_category_mapping src).
        category_name (load_category_mapping src) i \<in> HIGH_RISK_CATEGORIES cfg} \<and>
   high_risk_category_ids cfg [] = {} \<and>
   category_name [] cat_id = py ''Unknown''"
proof (intro conjI impI)
  show "distinct (map fst (load_category_mapping src))"
    by (rule distinct_load_category_mapping)
next
  assume "cat_id \<notin> fst ` set m"
  then have "map_of m cat_id = None" by (simp add: map_of_eq_None_iff)
  then show "category_name m cat_id = py ''Unknown''"
    by (simp add: category_name_def dict_get_def)
next
  assume d: "distinct (map fst m)"
  show "high_risk_category_ids cfg m =
        {i \<in> fst ` set m. category_name m i \<in> HIGH_RISK_CATEGORIES cfg}"
    using category_name_known [OF d]
    by (force simp: high_risk_category_ids_def)
next
  show "high_risk_category_ids cfg (load_category_mapping src) =
     {i \<in> fst ` set (load_category_mapping src).
        category_name (load_category_mapping src) i \<in> HIGH_RISK_CATEGORIES cfg}"
    using category_name_known [OF distinct_load_category_mapping [of src]]
    by (force simp: high_risk_category_ids_def)
next
  show "high_risk_category_ids cfg [] = {}" by (simp add: high_risk_category_ids_def)
next
  show "category_name [] cat_id = py ''Unknown''" by (simp add: category_name_def dict_get_def)
qed

theorem registry_lookup_witness:
  "load_category_mapping (Some
     [[py ''id'', py ''name''],
      [py '' c-mixer '', py ''Mixer ''],
      [py ''c-swap'', py ''Exchange''],
      [py ''c-swap'', py ''Mixer''],
      [py ''short'']]) = [(py ''c-mixer'', py ''Mixer''), (py ''c-swap'', py ''Mixer'')] \<and>
   category_name [(py ''c-mixer'', py ''Mixer''), (py ''c-swap'', py ''Mixer'')] (py ''c-none'') =
     py ''Unknown'' \<and>
   high_risk_category_ids default_config [(py ''c-mixer'', py ''Mixer''), (py ''c-swap'', py ''Mixer'')] =
     {py ''c-mixer'', py ''c-swap''} \<and>
   high_risk_category_ids default_config (load_category_mapping None) = {} \<and>
   category_name (load_category_mapping None) (py ''c-mixer'') = py ''Unknown''"
proof -
  let ?m = "[(py ''c-mixer'', py ''Mixer''), (py ''c-swap'', py ''Mixer'')]"
  have l: "load_category_mapping (Some
     [[py ''id'', py ''name''],
      [py '' c-mixer '', py ''Mixer ''],
      [py ''c-swap'', py ''Exchange''],
      [py ''c-swap'', py ''Mixer''],
      [py ''short'']]) = ?m"
    by (simp add: strip_def isspace_def py_def code_point_def)
  have d: "distinct (map fst ?m)" by simp
  have u: "py ''c-none'' \<notin> fst ` set ?m" by simp
  have s: "{i \<in> fst ` set ?m. category_name ?m i \<in> HIGH_RISK_CATEGORIES default_config} =
      {py ''c-mixer'', py ''c-swap''}"
    by (auto simp: category_name_def dict_get_def default_config_def)
  from registry_lookup [of _ "py ''c-none''" ?m default_config]
    registry_lookup [of _ "py ''c-mixer''" "[]" default_config]
  show ?thesis using l d u s by simp
qed


section \<open>Properties of apply\_compliance\_rules\<close>

text \<open>
  Claim C1. For every response whose risk score is absent, whatever its exposures, the
  evaluator returns the decision \<open>"Approved"\<close> with the reason \<open>"No risk score found"\<close>
  and with both triggered lists empty.
\<close>

theorem missing_score_approved:
  "risk_score r = None \<Longrightarrow>
   apply_compliance_rules cfg rnd mapping r =
     ([Lit ''Approved''],
      [(''reason'', VText [Lit ''No risk score found'']),
       (''triggered_rules'', VRules (\<lambda>_. []))])"
  by (simp add: apply_compliance_rules_def)

theorem missing_score_approved_witness:
  "risk_score (example_response None (py ''c-mixer'')
     \<lparr>min_number_of_hops = Some 1, indirect_percentage = Some (Num 50), risk_triggers = None\<rparr>) = None \<and>
   apply_compliance_rules default_config (\<lambda>x. x) example_mapping
     (example_response None (py ''c-mixer'')
        \<lparr>min_number_of_hops = Some 1, indirect_percentage = Some (Num 50), risk_triggers = None\<rparr>) =
     ([Lit ''Approved''],
      [(''reason'', VText [Lit ''No risk score found'']),
       (''triggered_rules'', VRules (\<lambda>_. []))])"
proof -
  let ?r = "example_response None (py ''c-mixer'')
     \<lparr>min_number_of_hops = Some 1, indirect_percentage = Some (Num 50), risk_triggers = None\<rparr>"
  have h: "risk_score ?r = None" by (simp add: example_response_def)
  from missing_score_approved [OF h] h show ?thesis by simp
qed

text \<open>
  Claim C2. For every response whose risk score is present and at least
  \<open>RISK_SCORE_THRESHOLD\<close>, whatever its exposures, the evaluator returns the rejection
  whose reason cites the score, with both triggered lists empty. The example that
  follows the theorem is a response with a mixer at one hop: with the score 7 the reason
  is the score, and the same exposures with the score 1 are rejected for the category.
\<close>

theorem high_score_rejected:
  "risk_score r = Some score \<Longrightarrow> py_ge score (RISK_SCORE_THRESHOLD cfg) \<Longrightarrow>
   apply_compliance_rules cfg rnd mapping r =
     ([Lit ''Rejected - '', Lit ''High Risk Score ('', NumV score, Lit '')''],
      [(''reason'', VText [Lit ''High Risk Score ('', NumV score, Lit '')'']),
       (''risk_score'', VNum score),
       (''triggered_rules'', VRules (\<lambda>_. []))])"
  by (simp add: apply_compliance_rules_def)

theorem high_score_rejected_witness:
  "py_ge (Num 7) (RISK_SCORE_THRESHOLD default_config) \<and>
   apply_compliance_rules default_config (\<lambda>x. x) example_mapping
     (example_response (Some (Num 7)) (py ''c-mixer'')
        \<lparr>min_number_of_hops = Some 1, indirect_percentage = Some (Num 50), risk_triggers = None\<rparr>) =
     ([Lit ''Rejected - '', Lit ''High Risk Score ('', NumV (Num 7), Lit '')''],
      [(''reason'', VText [Lit ''High Risk Score ('', NumV (Num 7), Lit '')'']),
       (''risk_score'', VNum (Num 7)),
       (''triggered_rules'', VRules (\<lambda>_. []))]) \<and>
   fst (apply_compliance_rules default_config (\<lambda>x. x) example_mapping
     (example_response (Some (Num 1)) (py ''c-mixer'')
        \<lparr>min_number_of_hops = Some 1, indirect_percentage = Some (Num 50), risk_triggers = None\<rparr>)) =
     [Lit ''Rejected - '', StrV (py ''Mixer''), Lit '' detected within '', IntV 1, Lit '' hops'']"
proof -
  let ?c = "\<lparr>min_number_of_hops = Some 1, indirect_percentage = Some (Num 50), risk_triggers = None\<rparr>"
  have h1: "risk_score (example_response (Some (Num 7)) (py ''c-mixer'') ?c) = Some (Num 7)"
    by (simp add: example_response_def)
  have h2: "py_ge (Num 7) (RISK_SCORE_THRESHOLD default_config)"
    by (simp add: py_ge_def default_config_def)
  have low: "fst (apply_compliance_rules default_config (\<lambda>x. x) example_mapping
     (example_response (Some (Num 1)) (py ''c-mixer'') ?c)) =
     [Lit ''Rejected - '', StrV (py ''Mixer''), Lit '' detected within '', IntV 1, Lit '' hops'']"
    by (simp add: apply_compliance_rules_def visit_contribution_def visit_element_def example_simps)
  from high_score_rejected [OF h1 h2] h2 low show ?thesis by simp
qed

subsection \<open>The loops walk the visits in order\<close>

lemma high_risk_country_None:
  "high_risk_country cfg h v = None \<longleftrightarrow>
     \<not> (case v of CountryList codes \<Rightarrow> list_ex (\<lambda>code. code \<in> HIGH_RISK_COUNTRIES cfg) codes \<and> h \<le> MAX_HOP_DISTANCE cfg
        | CountryOther \<Rightarrow> False)"
  by (auto simp: high_risk_country_def find_None_iff list_ex_iff split: country_json.splits)

lemma visit_contribution_continue:
  "\<not> rejects cfg hr (rt, cat_id, cat, c) \<Longrightarrow>
   visit_contribution cfg rnd hr score rt cat_id cat t c = Continue (add_hit rnd t (rt, cat_id, cat, c))"
  using high_risk_country_None [of cfg "hops_of c" "country_codes c"]
  by (auto simp: rejects_def visit_contribution_def Let_def add_hit_def hit_of_def hops_of_def pct_of_def
      split: option.splits)

lemma visit_contribution_return:
  "rejects cfg hr (rt, cat_id, cat, c) \<Longrightarrow>
   \<exists>d det. visit_contribution cfg rnd hr score rt cat_id cat t c = Return (d, det) \<and> is_rejected d \<and>
     map_of det ''triggered_rules'' = Some (VRules (add_hit rnd t (rt, cat_id, cat, c)))"
  using high_risk_country_None [of cfg "hops_of c" "country_codes c"]
  by (auto simp: rejects_def visit_contribution_def Let_def add_hit_def hit_of_def hops_of_def pct_of_def is_rejected_def
      split: option.splits)

lemma walk_visits_append:
  "walk_visits cfg rnd hr score t (xs @ ys) =
     (case walk_visits cfg rnd hr score t xs of
        Return r \<Rightarrow> Return r
      | Continue t' \<Rightarrow> walk_visits cfg rnd hr score t' ys)"
  by (induction xs arbitrary: t) (auto split: walk.splits)

lemma walk_contributions_visits:
  "walk_contributions cfg rnd hr score rt cat_id cat t cs =
   walk_visits cfg rnd hr score t (map (\<lambda>c. (rt, cat_id, cat, c)) cs)"
  by (induction cs arbitrary: t) (auto split: walk.splits)

lemma walk_elements_visits:
  "walk_elements cfg rnd mapping hr score rt t es =
   walk_visits cfg rnd hr score t (concat (map (element_visits mapping rt) es))"
  by (induction es arbitrary: t)
     (auto simp: walk_visits_append visit_element_def walk_contributions_visits element_visits_def Let_def
       split: walk.splits)

lemma walk_exposures_visits:
  "walk_exposures cfg rnd mapping hr score rt t xs =
   walk_visits cfg rnd hr score t (concat (map (exposure_visits mapping rt) xs))"
  by (induction xs arbitrary: t)
     (auto simp: walk_visits_append walk_elements_visits exposure_visits_def split: walk.splits)

lemma walk_lists_visits:
  "walk_lists cfg rnd mapping hr score t
     [(source_exposures r, Source), (destination_exposures r, Destination)] =
   walk_visits cfg rnd hr score t (visits mapping r)"
  by (auto simp: walk_visits_append walk_exposures_visits visits_def split: walk.splits)

lemma foldl_add_hit:
  "foldl (add_hit rnd) t vs rt = t rt @ map (hit_of rnd) (filter (\<lambda>v. fst v = rt) vs)"
  by (induction vs arbitrary: t) (auto simp: add_hit_def)

lemma walk_visits_clear:
  "\<forall>v \<in> set vs. \<not> rejects cfg hr v \<Longrightarrow>
   walk_visits cfg rnd hr score t vs = Continue (foldl (add_hit rnd) t vs)"
  by (induction vs arbitrary: t) (auto simp: visit_contribution_continue)

lemma walk_visits_hit:
  assumes "\<forall>v \<in> set pre. \<not> rejects cfg hr v" and "rejects cfg hr v"
  shows "\<exists>d det. walk_visits cfg rnd hr score t (pre @ v # post) = Return (d, det) \<and> is_rejected d \<and>
     map_of det ''triggered_rules'' = Some (VRules (foldl (add_hit rnd) t (pre @ [v])))"
proof -
  obtain rt cat_id cat c where v: "v = (rt, cat_id, cat, c)" by (cases v) auto
  from visit_contribution_return [OF assms(2) [unfolded v], of rnd score "foldl (add_hit rnd) t pre"]
  show ?thesis
    by (auto simp: walk_visits_append walk_visits_clear [OF assms(1)] v)
qed

lemma take_through_all: "\<forall>x \<in> set xs. \<not> P x \<Longrightarrow> take_through P xs = xs"
  by (induction xs) (auto simp: take_through_def)

lemma take_through_first:
  "\<forall>x \<in> set pre. \<not> P x \<Longrightarrow> P x \<Longrightarrow> take_through P (pre @ x # post) = pre @ [x]"
  by (simp add: take_through_def takeWhile_append2 dropWhile_append2)

text \<open>Below the score rules, the evaluator is the walk over the visits.\<close>

lemma apply_compliance_rules_walk:
  assumes "risk_score r = Some score" and "\<not> py_ge score (RISK_SCORE_THRESHOLD cfg)"
  shows "apply_compliance_rules cfg rnd mapping r =
     (case walk_visits cfg rnd (high_risk_category_ids cfg mapping) score (\<lambda>_. []) (visits mapping r) of
        Return res \<Rightarrow> res
      | Continue t \<Rightarrow>
          ([Lit ''Approved''],
           [(''reason'', VText [Lit ''All compliance checks passed'']),
            (''risk_score'', VNum score),
            (''triggered_rules'', VRules t)]))"
  using assms by (simp add: apply_compliance_rules_def walk_lists_visits del: walk_lists.simps)

lemma apply_compliance_rules_clear:
  assumes "risk_score r = Some score" and "\<not> py_ge score (RISK_SCORE_THRESHOLD cfg)"
    and "\<forall>v \<in> set (visits mapping r). \<not> rejects cfg (high_risk_category_ids cfg mapping) v"
  shows "apply_compliance_rules cfg rnd mapping r =
     ([Lit ''Approved''],
      [(''reason'', VText [Lit ''All compliance checks passed'']),
       (''risk_score'', VNum score),
       (''triggered_rules'', VRules (foldl (add_hit rnd) (\<lambda>_. []) (visits mapping r)))])"
  by (simp add: apply_compliance_rules_walk [OF assms(1,2)] walk_visits_clear [OF assms(3)])

lemma apply_compliance_rules_hit:
  assumes "risk_score r = Some score" and "\<not> py_ge score (RISK_SCORE_THRESHOLD cfg)"
    and "visits mapping r = pre @ v # post"
    and "\<forall>v \<in> set pre. \<not> rejects cfg (high_risk_category_ids cfg mapping) v"
    and "rejects cfg (high_risk_category_ids cfg mapping) v"
  shows "\<exists>d det. apply_compliance_rules cfg rnd mapping r = (d, det) \<and> is_rejected d \<and>
     map_of det ''triggered_rules'' = Some (VRules (foldl (add_hit rnd) (\<lambda>_. []) (pre @ [v])))"
  using walk_visits_hit [OF assms(4,5), of rnd score "\<lambda>_. []" post]
  by (auto simp: apply_compliance_rules_walk [OF assms(1,2)] assms(3))

text \<open>
  Claim C5. For every response that reaches the exposure walk (its score is present and
  not at or above the threshold), each triggered list holds one entry (category name,
  hops, percentage rounded by \<open>round(x, 2)\<close>) for every visit of its side, in the order
  of the visits, up to and including the first visit that satisfies a rejection
  condition; later visits leave no entry. The decision is a rejection exactly when some
  visit satisfies a rejection condition.
\<close>

theorem triggered_rules_visited:
  assumes "risk_score r = Some score" and "\<not> py_ge score (RISK_SCORE_THRESHOLD cfg)"
  shows "rules_of (snd (apply_compliance_rules cfg rnd mapping r)) rt =
     Some (map (hit_of rnd) (filter (\<lambda>v. fst v = rt)
       (take_through (rejects cfg (high_risk_category_ids cfg mapping)) (visits mapping r)))) \<and>
     (is_rejected (fst (apply_compliance_rules cfg rnd mapping r)) \<longleftrightarrow>
        list_ex (rejects cfg (high_risk_category_ids cfg mapping)) (visits mapping r))"
proof (cases "\<exists>v \<in> set (visits mapping r). rejects cfg (high_risk_category_ids cfg mapping) v")
  case False
  then have clear: "\<forall>v \<in> set (visits mapping r). \<not> rejects cfg (high_risk_category_ids cfg mapping) v"
    by simp
  show ?thesis
    using clear
    by (simp add: apply_compliance_rules_clear [OF assms clear] rules_of_def foldl_add_hit
        take_through_all is_rejected_def list_ex_iff)
next
  case True
  from split_list_first_prop [OF True]
  obtain pre v post where split: "visits mapping r = pre @ v # post"
    and v: "rejects cfg (high_risk_category_ids cfg mapping) v"
    and pre: "\<forall>u \<in> set pre. \<not> rejects cfg (high_risk_category_ids cfg mapping) u"
    by blast
  from apply_compliance_rules_hit [OF assms split pre v, of rnd]
  obtain d det where res: "apply_compliance_rules cfg rnd mapping r = (d, det)"
    and d: "is_rejected d"
    and det: "map_of det ''triggered_rules'' = Some (VRules (foldl (add_hit rnd) (\<lambda>_. []) (pre @ [v])))"
    by blast
  have "foldl (add_hit rnd) (\<lambda>_. []) (pre @ [v]) rt =
      map (hit_of rnd) (filter (\<lambda>v. fst v = rt) (pre @ [v]))"
    by (simp only: foldl_add_hit append_Nil)
  with det have "rules_of det rt = Some (map (hit_of rnd) (filter (\<lambda>v. fst v = rt) (pre @ [v])))"
    by (simp add: rules_of_def)
  moreover have "list_ex (rejects cfg (high_risk_category_ids cfg mapping)) (visits mapping r)"
    using True by (simp add: list_ex_iff)
  ultimately show ?thesis
    using d by (simp add: res split take_through_first [OF pre v])
qed

theorem triggered_rules_visited_witness:
  "risk_score example_walk = Some (Num 1) \<and>
   \<not> py_ge (Num 1) (RISK_SCORE_THRESHOLD default_config) \<and>
   rules_of (snd (apply_compliance_rules default_config (\<lambda>x. x) example_mapping example_walk)) Source =
     Some [\<lparr>category = py ''Exchange'', hops = 1, contribution = Num 12\<rparr>,
           \<lparr>category = py ''Mixer'', hops = 5, contribution = Num 0\<rparr>,
           \<lparr>category = py ''Mixer'', hops = 2, contribution = Num 7\<rparr>] \<and>
   rules_of (snd (apply_compliance_rules default_config (\<lambda>x. x) example_mapping example_walk))
     Destination = Some [] \<and>
   is_rejected (fst (apply_compliance_rules default_config (\<lambda>x. x) example_mapping example_walk))"
proof -
  have h1: "risk_score example_walk = Some (Num 1)" by (simp add: example_walk_def)
  have h2: "\<not> py_ge (Num 1) (RISK_SCORE_THRESHOLD default_config)"
    by (simp add: py_ge_def default_config_def)
  have hr: "high_risk_category_ids default_config example_mapping = {py ''c-mixer''}"
    by (simp add: high_risk_category_ids_def default_config_def example_mapping_def)
  have vs: "visits example_mapping example_walk =
     [(Source, py ''c-exchange'', py ''Exchange'',
        \<lparr>min_number_of_hops = Some 1, indirect_percentage = Some (Num 12), risk_triggers = None\<rparr>),
      (Source, py ''c-mixer'', py ''Mixer'',
        \<lparr>min_number_of_hops = Some 5, indirect_percentage = None, risk_triggers = None\<rparr>),
      (Source, py ''c-mixer'', py ''Mixer'',
        \<lparr>min_number_of_hops = Some 2, indirect_percentage = Some (Num 7), risk_triggers = None\<rparr>),
      (Source, py ''c-mixer'', py ''Mixer'',
        \<lparr>min_number_of_hops = Some 1, indirect_percentage = Some (Num 8), risk_triggers = None\<rparr>),
      (Destination, py ''c-gambling'', py ''Gambling'',
        \<lparr>min_number_of_hops = Some 1, indirect_percentage = Some (Num 9), risk_triggers = None\<rparr>)]"
    by (simp add: example_walk_def example_mapping_def visits_def source_exposures_def
        destination_exposures_def exposure_visits_def element_visits_def category_name_def
        dict_get_def Let_def)
  have tt: "take_through (rejects default_config {py ''c-mixer''}) (visits example_mapping example_walk) =
      take 3 (visits example_mapping example_walk)"
    by (simp add: vs take_through_def rejects_def hops_of_def pct_of_def country_codes_def
        default_config_def py_gt_def)
  have ex: "list_ex (rejects default_config {py ''c-mixer''}) (visits example_mapping example_walk)"
    by (simp add: vs rejects_def hops_of_def pct_of_def country_codes_def default_config_def py_gt_def)
  from triggered_rules_visited [OF h1 h2, of "\<lambda>x. x" example_mapping Source]
    triggered_rules_visited [OF h1 h2, of "\<lambda>x. x" example_mapping Destination]
  show ?thesis
    unfolding hr tt using ex h1 h2 by (simp add: vs hit_of_def hops_of_def pct_of_def)
qed

text \<open>
  Claim C3. For every response with a score below the threshold whose only contribution
  belongs to a high-risk category id, with a category name other than \<open>"Gambling"\<close> and
  with no country codes: with \<open>min_number_of_hops\<close> equal to \<open>MAX_HOP_DISTANCE\<close> the
  decision is a rejection, and with \<open>MAX_HOP_DISTANCE + 1\<close> it is \<open>"Approved"\<close>.
\<close>

theorem high_risk_category_hop_boundary:
  assumes "risk_score r = Some score" and "\<not> py_ge score (RISK_SCORE_THRESHOLD cfg)"
    and "visits mapping r = [(rt, cat_id, cat, c)]"
    and "cat_id \<in> high_risk_category_ids cfg mapping"
    and "cat \<noteq> py ''Gambling''"
    and "country_codes c = CountryList []"
  shows "(min_number_of_hops c = Some (MAX_HOP_DISTANCE cfg) \<longrightarrow>
           is_rejected (fst (apply_compliance_rules cfg rnd mapping r))) \<and>
         (min_number_of_hops c = Some (MAX_HOP_DISTANCE cfg + 1) \<longrightarrow>
           is_approved (fst (apply_compliance_rules cfg rnd mapping r)))"
  using assms(3-6)
  by (auto simp: apply_compliance_rules_walk [OF assms(1,2)] visit_contribution_def Let_def
      high_risk_country_def country_codes_def is_rejected_def is_approved_def)

theorem high_risk_category_hop_boundary_witness:
  "\<not> py_ge (Num 1) (RISK_SCORE_THRESHOLD default_config) \<and>
   py ''c-mixer'' \<in> high_risk_category_ids default_config example_mapping \<and>
   category_name example_mapping (py ''c-mixer'') = py ''Mixer'' \<and>
   MAX_HOP_DISTANCE default_config = 3 \<and>
   is_rejected (fst (apply_compliance_rules default_config (\<lambda>x. x) example_mapping
     (example_response (Some (Num 1)) (py ''c-mixer'')
        \<lparr>min_number_of_hops = Some 3, indirect_percentage = Some (Num 50), risk_triggers = None\<rparr>))) \<and>
   is_approved (fst (apply_compliance_rules default_config (\<lambda>x. x) example_mapping
     (example_response (Some (Num 1)) (py ''c-mixer'')
        \<lparr>min_number_of_hops = Some 4, indirect_percentage = Some (Num 50), risk_triggers = None\<rparr>)))"
proof -
  let ?c3 = "\<lparr>min_number_of_hops = Some 3, indirect_percentage = Some (Num 50), risk_triggers = None\<rparr>"
  let ?c4 = "\<lparr>min_number_of_hops = Some 4, indirect_percentage = Some (Num 50), risk_triggers = None\<rparr>"
  have h1: "risk_score (example_response (Some (Num 1)) (py ''c-mixer'') c) = Some (Num 1)" for c
    by (simp add: example_response_def)
  have h2: "\<not> py_ge (Num 1) (RISK_SCORE_THRESHOLD default_config)"
    by (simp add: py_ge_def default_config_def)
  have h3: "visits example_mapping (example_response (Some (Num 1)) (py ''c-mixer'') c) =
      [(Source, py ''c-mixer'', py ''Mixer'', c)]" for c
    by (simp add: example_visits) (simp add: category_name_def dict_get_def example_mapping_def)
  have h4: "py ''c-mixer'' \<in> high_risk_category_ids default_config example_mapping"
    by (simp add: high_risk_category_ids_def default_config_def example_mapping_def)
  have h5: "py ''Mixer'' \<noteq> py ''Gambling''" by simp
  have h6: "country_codes ?c3 = CountryList []" "country_codes ?c4 = CountryList []"
    by (simp_all add: country_codes_def)
  have m: "MAX_HOP_DISTANCE default_config = 3" by (simp add: default_config_def)
  have n: "category_name example_mapping (py ''c-mixer'') = py ''Mixer''"
    by (simp add: category_name_def dict_get_def example_mapping_def)
  from high_risk_category_hop_boundary [OF h1 h2 h3 h4 h5 h6(1), of "\<lambda>x. x"]
    high_risk_category_hop_boundary [OF h1 h2 h3 h4 h5 h6(2), of "\<lambda>x. x"]
  show ?thesis using h2 h4 n by (simp add: m)
qed

text \<open>
  Claim C4. For every response with a score below the threshold whose only contribution
  has the category name \<open>"Gambling"\<close>, a category id outside the high-risk set and no
  country codes: at \<open>GAMBLING_HOP_LIMIT\<close> hops the decision is a rejection; with
  \<open>GAMBLING_HOP_LIMIT < 3\<close>, at three hops it is a rejection when the percentage is
  greater than \<open>GAMBLING_CONTRIBUTION_THRESHOLD\<close> and \<open>"Approved"\<close> when the percentage
  equals it.
\<close>

theorem gambling_boundaries:
  assumes "risk_score r = Some score" and "\<not> py_ge score (RISK_SCORE_THRESHOLD cfg)"
    and "visits mapping r = [(rt, cat_id, py ''Gambling'', c)]"
    and "cat_id \<notin> high_risk_category_ids cfg mapping"
    and "country_codes c = CountryList []"
  shows "(min_number_of_hops c = Some (GAMBLING_HOP_LIMIT cfg) \<longrightarrow>
           is_rejected (fst (apply_compliance_rules cfg rnd mapping r))) \<and>
         (GAMBLING_HOP_LIMIT cfg < 3 \<and> min_number_of_hops c = Some 3 \<and>
          py_gt (pct_of c) (GAMBLING_CONTRIBUTION_THRESHOLD cfg) \<longrightarrow>
           is_rejected (fst (apply_compliance_rules cfg rnd mapping r))) \<and>
         (GAMBLING_HOP_LIMIT cfg < 3 \<and> min_number_of_hops c = Some 3 \<and>
          indirect_percentage c = Some (GAMBLING_CONTRIBUTION_THRESHOLD cfg) \<longrightarrow>
           is_approved (fst (apply_compliance_rules cfg rnd mapping r)))"
  using assms(3-5)
  by (auto simp: apply_compliance_rules_walk [OF assms(1,2)] visit_contribution_def Let_def
      high_risk_country_def country_codes_def is_rejected_def is_approved_def pct_of_def py_gt_def
      elim: py_lt.elims)

theorem gambling_boundaries_witness:
  "\<not> py_ge (Num 1) (RISK_SCORE_THRESHOLD default_config) \<and>
   py ''c-gambling'' \<notin> high_risk_category_ids default_config example_mapping \<and>
   category_name example_mapping (py ''c-gambling'') = py ''Gambling'' \<and>
   GAMBLING_HOP_LIMIT default_config = 2 \<and>
   GAMBLING_CONTRIBUTION_THRESHOLD default_config = Num 3 \<and>
   is_rejected (fst (apply_compliance_rules default_config (\<lambda>x. x) example_mapping
     (example_response (Some (Num 1)) (py ''c-gambling'')
        \<lparr>min_number_of_hops = Some 2, indirect_percentage = Some (Num 0), risk_triggers = None\<rparr>))) \<and>
   is_rejected (fst (apply_compliance_rules default_config (\<lambda>x. x) example_mapping
     (example_response (Some (Num 1)) (py ''c-gambling'')
        \<lparr>min_number_of_hops = Some 3, indirect_percentage = Some (Num (301 / 100)),
         risk_triggers = None\<rparr>))) \<and>
   is_approved (fst (apply_compliance_rules default_config (\<lambda>x. x) example_mapping
     (example_response (Some (Num 1)) (py ''c-gambling'')
        \<lparr>min_number_of_hops = Some 3, indirect_percentage = Some (Num 3), risk_triggers = None\<rparr>)))"
proof -
  let ?a = "\<lparr>min_number_of_hops = Some 2, indirect_percentage = Some (Num 0), risk_triggers = None\<rparr>"
  let ?b = "\<lparr>min_number_of_hops = Some 3, indirect_percentage = Some (Num (301 / 100)),
         risk_triggers = None\<rparr>"
  let ?c = "\<lparr>min_number_of_hops = Some 3, indirect_percentage = Some (Num 3), risk_triggers = None\<rparr>"
  have h1: "risk_score (example_response (Some (Num 1)) (py ''c-gambling'') c) = Some (Num 1)" for c
    by (simp add: example_response_def)
  have h2: "\<not> py_ge (Num 1) (RISK_SCORE_THRESHOLD default_config)"
    by (simp add: py_ge_def default_config_def)
  have h3: "visits example_mapping (example_response (Some (Num 1)) (py ''c-gambling'') c) =
      [(Source, py ''c-gambling'', py ''Gambling'', c)]" for c
    by (simp add: example_visits) (simp add: category_name_def dict_get_def example_mapping_def)
  have h4: "py ''c-gambling'' \<notin> high_risk_category_ids default_config example_mapping"
    by (simp add: high_risk_category_ids_def default_config_def example_mapping_def)
  have h5: "country_codes ?a = CountryList []" "country_codes ?b = CountryList []"
    "country_codes ?c = CountryList []"
    by (simp_all add: country_codes_def)
  have g: "GAMBLING_HOP_LIMIT default_config = 2"
    "GAMBLING_CONTRIBUTION_THRESHOLD default_config = Num 3"
    by (simp_all add: default_config_def)
  have gt: "py_gt (pct_of ?b) (Num 3)" by (simp add: py_gt_def pct_of_def)
  have n: "category_name example_mapping (py ''c-gambling'') = py ''Gambling''"
    by (simp add: category_name_def dict_get_def example_mapping_def)
  from gambling_boundaries [OF h1 h2 h3 h4 h5(1), of "\<lambda>x. x"]
    gambling_boundaries [OF h1 h2 h3 h4 h5(2), of "\<lambda>x. x"]
    gambling_boundaries [OF h1 h2 h3 h4 h5(3), of "\<lambda>x. x"]
  show ?thesis using gt h2 h4 n by (simp add: g)
qed

subsection \<open>Every response has a verdict\<close>








section \<open>Properties of database.py\<close>

text \<open>
  Claim C6. For a known identity \<open>check_usage_limit\<close> returns the remaining daily and
  monthly figures \<open>max(0, limit - count)\<close>; it refuses with the daily message whenever
  the daily count has reached the daily limit, whatever the monthly count; otherwise it
  refuses with the monthly message when the monthly count has reached the monthly
  limit; otherwise it allows. For an unknown identity it refuses with both figures 0.
\<close>

theorem check_usage_limit_result:
  "(get_user db tid = None \<longrightarrow>
      check_usage_limit db now_day now_month tid = (False, [Lit ''User not authorized''], 0, 0)) \<and>
   (get_user db tid = Some user \<longrightarrow>
      (case check_usage_limit db now_day now_month tid of
         (allowed, message, remaining_daily, remaining_monthly) \<Rightarrow>
           remaining_daily = max 0 (daily_limit user - get_usage_count db now_day tid ''day'') \<and>
           remaining_monthly = max 0 (monthly_limit user - get_usage_count db now_month tid ''month'') \<and>
           (get_usage_count db now_day tid ''day'' \<ge> daily_limit user \<longrightarrow>
              \<not> allowed \<and> remaining_daily = 0 \<and>
              message = [Lit ''Daily limit reached ('', IntV (daily_limit user), Lit '' queries/day)'']) \<and>
           (get_usage_count db now_day tid ''day'' < daily_limit user \<and>
            get_usage_count db now_month tid ''month'' \<ge> monthly_limit user \<longrightarrow>
              \<not> allowed \<and> remaining_monthly = 0 \<and>
              message = [Lit ''Monthly limit reached ('', IntV (monthly_limit user), Lit '' queries/month)'']) \<and>
           (get_usage_count db now_day tid ''day'' < daily_limit user \<and>
            get_usage_count db now_month tid ''month'' < monthly_limit user \<longrightarrow> allowed)))"
  by (auto simp: check_usage_limit_def Let_def)

theorem check_usage_limit_result_witness:
  "get_user (example_db\<lparr>usage_logs :=
       [\<lparr>log_user_id = 1, log_wallet_address = example_address, log_risk_score = SqlNum (Num 2),
         log_decision = [Lit ''Approved''], log_timestamp = 1000\<rparr>]\<rparr>) (py ''alice'') =
     Some \<lparr>uid = 1, telegram_id = py ''alice'', telegram_username = Some (py ''alice''),
          is_admin = False, is_active = True, daily_limit = 1, monthly_limit = 300\<rparr> \<and>
   check_usage_limit (example_db\<lparr>usage_logs :=
       [\<lparr>log_user_id = 1, log_wallet_address = example_address, log_risk_score = SqlNum (Num 2),
         log_decision = [Lit ''Approved''], log_timestamp = 1000\<rparr>]\<rparr>) 2000 2000 (py ''alice'') =
     (False, [Lit ''Daily limit reached ('', IntV 1, Lit '' queries/day)''], 0, 299) \<and>
   get_user example_db (py ''bob'') = None \<and>
   check_usage_limit example_db 2000 2000 (py ''bob'') = (False, [Lit ''User not authorized''], 0, 0)"
proof -
  let ?db = "example_db\<lparr>usage_logs :=
       [\<lparr>log_user_id = 1, log_wallet_address = example_address, log_risk_score = SqlNum (Num 2),
         log_decision = [Lit ''Approved''], log_timestamp = 1000\<rparr>]\<rparr>"
  let ?alice = "\<lparr>uid = 1, telegram_id = py ''alice'', telegram_username = Some (py ''alice''),
          is_admin = False, is_active = True, daily_limit = 1, monthly_limit = 300\<rparr>"
  have a: "get_user ?db (py ''alice'') = Some ?alice"
    by (simp add: get_user_def example_db_def)
  have b: "get_user example_db (py ''bob'') = None"
    by (simp add: get_user_def example_db_def)
  have d: "get_usage_count ?db 2000 (py ''alice'') ''day'' = 1"
    by (simp add: get_usage_count_def a)
  have m: "get_usage_count ?db 2000 (py ''alice'') ''month'' = 1"
    by (simp add: get_usage_count_def a)
  from check_usage_limit_result [of ?db "py ''alice''" 2000 2000 ?alice]
    check_usage_limit_result [of example_db "py ''bob''" 2000 2000]
  show ?thesis using a b by (auto simp: d m split: prod.splits)
qed


section \<open>Properties of the wallet analysis flow\<close>






end
